theory Spec2Isabelle
  imports Main
begin

section \<open>Python strings\<close>

text \<open>
  A Python \<open>str\<close> is modelled as a \<open>string\<close> (a \<open>char list\<close>): the character with
  code \<open>n\<close> stands for the code point \<open>n\<close>, for the code points 0 to 255. On these code
  points \<open>str.isspace\<close> (which \<open>str.strip()\<close>, \<open>str.split()\<close> and the class \<open>\s\<close> of
  \<open>re\<close> use) holds of 9 to 13, 28 to 32, 133 and 160.
\<close>

definition whitespace_chars :: string where
  "whitespace_chars =
     [CHR 0x09, CHR 0x0A, CHR 0x0B, CHR 0x0C, CHR 0x0D, CHR 0x1C, CHR 0x1D, CHR 0x1E,
      CHR 0x1F, CHR 0x20, CHR 0x85, CHR 0xA0]"

definition isspace :: "char \<Rightarrow> bool" where
  "isspace c = (c \<in> set whitespace_chars)"

text \<open>
  \<open>in_range lo hi c\<close>: the code point of \<open>c\<close> lies between \<open>lo\<close> and \<open>hi\<close>. On the code
  points 0 to 255 the class \<open>\d\<close> of \<open>re\<close> holds of the ten ASCII digits, and \<open>\w\<close> of the
  characters for which \<open>str.isalnum\<close> holds and of the underscore.
\<close>

definition in_range :: "nat \<Rightarrow> nat \<Rightarrow> char \<Rightarrow> bool" where
  "in_range lo hi c = (lo \<le> of_char c \<and> (of_char c :: nat) \<le> hi)"

definition isdigit :: "char \<Rightarrow> bool" where
  "isdigit c = in_range 48 57 c"

definition isword :: "char \<Rightarrow> bool" where
  "isword c =
     list_ex (\<lambda>(lo, hi). in_range lo hi c)
       [(48, 57), (65, 90), (95, 95), (97, 122), (170, 170), (178, 179), (181, 181),
        (185, 186), (188, 190), (192, 214), (216, 246), (248, 255)]"

definition bslash :: char where
  "bslash = CHR 0x5C"

definition newline :: char where
  "newline = CHR 0x0A"


text \<open>
  \<open>s.strip()\<close> and \<open>s.strip(chars)\<close>: the longest run of stripped characters is removed
  at the left end, then at the right end of what is left.
\<close>

definition strip_with :: "(char \<Rightarrow> bool) \<Rightarrow> string \<Rightarrow> string" where
  "strip_with p s = rev (dropWhile p (rev (dropWhile p s)))"

definition str_strip :: "string \<Rightarrow> string" where
  "str_strip s = strip_with isspace s"

definition str_strip_chars :: "string \<Rightarrow> string \<Rightarrow> string" where
  "str_strip_chars chars s = strip_with (\<lambda>c. c \<in> set chars) s"

text \<open>
  \<open>s.split()\<close>: the maximal runs of characters that are not whitespace, in order.
  \<open>split_from cur cs\<close> scans \<open>cs\<close> with the token \<open>cur\<close> read so far.
\<close>

fun split_from :: "string \<Rightarrow> string \<Rightarrow> string list" where
  "split_from cur [] = (if cur = [] then [] else [cur])"
| "split_from cur (c # cs) =
     (if isspace c then (if cur = [] then split_from [] cs else cur # split_from [] cs)
      else split_from (cur @ [c]) cs)"

definition str_split :: "string \<Rightarrow> string list" where
  "str_split s = split_from [] s"

text \<open>\<open>sep.join(xs)\<close>.\<close>

fun str_join :: "string \<Rightarrow> string list \<Rightarrow> string" where
  "str_join sep [] = []"
| "str_join sep [x] = x"
| "str_join sep (x # y # ys) = x @ sep @ str_join sep (y # ys)"

text \<open>\<open>s.replace(old, new)\<close> for a single character \<open>old\<close>.\<close>

definition str_replace_char :: "char \<Rightarrow> string \<Rightarrow> string \<Rightarrow> string" where
  "str_replace_char old new s = concat (map (\<lambda>c. if c = old then new else [c]) s)"

section \<open>Regular expressions\<close>

text \<open>
  The patterns of the source are strings that Python's \<open>re\<close> parses. A pattern is
  modelled by its syntax tree, and \<open>render_pattern\<close> writes a tree back as the pattern
  text, so that each tree below is tied to the string the source builds.
  \<open>Lit c\<close> is the character \<open>c\<close>, \<open>Esc c\<close> is a backslash and \<open>c\<close>, \<open>Rng lo hi\<close> is the
  range \<open>lo-hi\<close> of a character class.
\<close>

datatype atom = Lit char | Esc char | Rng char char

datatype regex =
    Lits string
  | Atom atom
  | Dot
  | Cls bool "atom list"
  | Cat regex regex
  | Alt regex regex
  | Grp regex
  | NGrp regex
  | Opt regex
  | Star regex
  | OneOrMore regex
  | AtLeast nat regex

text \<open>
  A pattern: the flag \<open>(?s)\<close>, a leading \<open>^\<close>, the expression and a trailing \<open>$\<close>.
\<close>

record pattern =
  p_dotall :: bool
  p_caret :: bool
  p_regex :: regex
  p_dollar :: bool

fun digits_of :: "nat \<Rightarrow> string" where
  "digits_of n =
     (if n < 10 then [char_of (48 + n)] else digits_of (n div 10) @ [char_of (48 + n mod 10)])"

fun render_atom :: "atom \<Rightarrow> string" where
  "render_atom (Lit c) = [c]"
| "render_atom (Esc c) = [bslash, c]"
| "render_atom (Rng lo hi) = [lo, CHR ''-'', hi]"

fun render :: "regex \<Rightarrow> string" where
  "render (Lits s) = s"
| "render (Atom a) = render_atom a"
| "render Dot = ''.''"
| "render (Cls neg items) =
     ''['' @ (if neg then ''^'' else []) @ concat (map render_atom items) @ '']''"
| "render (Cat r s) = render r @ render s"
| "render (Alt r s) = render r @ ''|'' @ render s"
| "render (Grp r) = ''('' @ render r @ '')''"
| "render (NGrp r) = ''(?:'' @ render r @ '')''"
| "render (Opt r) = render r @ ''?''"
| "render (Star r) = render r @ ''*''"
| "render (OneOrMore r) = render r @ ''+''"
| "render (AtLeast n r) = render r @ ''{'' @ digits_of n @ '',}''"

definition render_pattern :: "pattern \<Rightarrow> string" where
  "render_pattern p =
     (if p_dotall p then ''(?s)'' else []) @ (if p_caret p then ''^'' else [])
       @ render (p_regex p) @ (if p_dollar p then ''$'' else [])"

text \<open>
  A tree is \<open>well_formed\<close> when its text parses back to it: literal characters are not
  metacharacters, a quantifier stands on a single character, class or group, an
  alternation inside a sequence is in a group, and the escapes are those the source
  uses.
\<close>

definition metachars :: string where
  "metachars = ''.^$*+?{}[]|()'' @ [bslash]"

fun class_item_ok :: "atom \<Rightarrow> bool" where
  "class_item_ok (Lit c) = (c \<notin> set (''^]-'' @ [bslash]))"
| "class_item_ok (Esc e) = (e \<in> set ''dsSwnr'')"
| "class_item_ok (Rng lo hi) =
     (lo \<notin> set (''^]-'' @ [bslash]) \<and> hi \<notin> set (''^]-'' @ [bslash])
      \<and> (of_char lo :: nat) \<le> of_char hi)"

fun quantifiable :: "regex \<Rightarrow> bool" where
  "quantifiable (Lits s) = (length s = 1)"
| "quantifiable (Atom a) = True"
| "quantifiable Dot = True"
| "quantifiable (Cls neg items) = True"
| "quantifiable (Grp r) = True"
| "quantifiable (NGrp r) = True"
| "quantifiable r = False"

fun is_alt :: "regex \<Rightarrow> bool" where
  "is_alt (Alt r s) = True"
| "is_alt r = False"

fun well_formed :: "regex \<Rightarrow> bool" where
  "well_formed (Lits s) = list_all (\<lambda>c. c \<notin> set metachars) s"
| "well_formed (Atom (Lit c)) = (c \<notin> set metachars)"
| "well_formed (Atom (Esc e)) = (e \<in> set ''dsSwnr()'')"
| "well_formed (Atom (Rng lo hi)) = False"
| "well_formed Dot = True"
| "well_formed (Cls neg items) = (items \<noteq> [] \<and> list_all class_item_ok items)"
| "well_formed (Cat r s) = (well_formed r \<and> well_formed s \<and> \<not> is_alt r \<and> \<not> is_alt s)"
| "well_formed (Alt r s) = (well_formed r \<and> well_formed s)"
| "well_formed (Grp r) = well_formed r"
| "well_formed (NGrp r) = well_formed r"
| "well_formed (Opt r) = (quantifiable r \<and> well_formed r)"
| "well_formed (Star r) = (quantifiable r \<and> well_formed r)"
| "well_formed (OneOrMore r) = (quantifiable r \<and> well_formed r)"
| "well_formed (AtLeast n r) = (quantifiable r \<and> well_formed r)"

text \<open>
  What one character matches. The escapes are those of the source's patterns: the classes
  \<open>\d\<close>, \<open>\s\<close>, \<open>\S\<close> and \<open>\w\<close>, the characters \<open>\n\<close> and \<open>\r\<close>, and the escaped
  parentheses, which stand for themselves.
\<close>

definition esc_matches :: "char \<Rightarrow> char \<Rightarrow> bool" where
  "esc_matches e c =
     (if e = CHR ''d'' then isdigit c
      else if e = CHR ''s'' then isspace c
      else if e = CHR ''S'' then \<not> isspace c
      else if e = CHR ''w'' then isword c
      else if e = CHR ''n'' then c = CHR 0x0A
      else if e = CHR ''r'' then c = CHR 0x0D
      else if e \<in> set ''()'' then c = e
      else False)"

fun atom_matches :: "atom \<Rightarrow> char \<Rightarrow> bool" where
  "atom_matches (Lit l) c = (c = l)"
| "atom_matches (Esc e) c = esc_matches e c"
| "atom_matches (Rng lo hi) c = in_range (of_char lo) (of_char hi) c"

text \<open>
  Matching goes through the core expressions \<open>re\<close>: nothing, the empty word, one
  character of a set, alternation, sequence and iteration. \<open>expand dotall r\<close> translates
  a tree; with \<open>dotall\<close> the dot matches every character, without it every character
  but the newline.
\<close>

datatype re = RVoid | REmpty | RSym "char \<Rightarrow> bool" | RAlt re re | RSeq re re | RStar re

fun power_re :: "nat \<Rightarrow> re \<Rightarrow> re \<Rightarrow> re" where
  "power_re 0 r t = t"
| "power_re (Suc n) r t = RSeq r (power_re n r t)"

fun expand :: "bool \<Rightarrow> regex \<Rightarrow> re" where
  "expand d (Lits s) = foldr (\<lambda>c r. RSeq (RSym (\<lambda>x. x = c)) r) s REmpty"
| "expand d (Atom a) = RSym (atom_matches a)"
| "expand d Dot = RSym (\<lambda>c. d \<or> c \<noteq> CHR 0x0A)"
| "expand d (Cls neg items) = RSym (\<lambda>c. list_ex (\<lambda>i. atom_matches i c) items \<noteq> neg)"
| "expand d (Cat r s) = RSeq (expand d r) (expand d s)"
| "expand d (Alt r s) = RAlt (expand d r) (expand d s)"
| "expand d (Grp r) = expand d r"
| "expand d (NGrp r) = expand d r"
| "expand d (Opt r) = RAlt (expand d r) REmpty"
| "expand d (Star r) = RStar (expand d r)"
| "expand d (OneOrMore r) = RSeq (expand d r) (RStar (expand d r))"
| "expand d (AtLeast n r) = power_re n (expand d r) (RStar (expand d r))"

text \<open>The words of a core expression.\<close>

inductive_set star_words :: "string set \<Rightarrow> string set" for L :: "string set" where
  star_nil: "[] \<in> star_words L"
| star_step: "u \<in> L \<Longrightarrow> v \<in> star_words L \<Longrightarrow> u @ v \<in> star_words L"

fun lang :: "re \<Rightarrow> string set" where
  "lang RVoid = {}"
| "lang REmpty = {[]}"
| "lang (RSym p) = {[c] | c. p c}"
| "lang (RAlt r s) = lang r \<union> lang s"
| "lang (RSeq r s) = {u @ v | u v. u \<in> lang r \<and> v \<in> lang s}"
| "lang (RStar r) = star_words (lang r)"

text \<open>
  The executable matcher: \<open>accepts r s\<close> takes the derivative of \<open>r\<close> by each character
  of \<open>s\<close> in turn; \<open>simp_alt\<close> and \<open>simp_seq\<close> drop the parts that match nothing.
\<close>

fun nullable :: "re \<Rightarrow> bool" where
  "nullable RVoid = False"
| "nullable REmpty = True"
| "nullable (RSym p) = False"
| "nullable (RAlt r s) = (nullable r \<or> nullable s)"
| "nullable (RSeq r s) = (nullable r \<and> nullable s)"
| "nullable (RStar r) = True"

fun simp_alt :: "re \<Rightarrow> re \<Rightarrow> re" where
  "simp_alt RVoid s = s"
| "simp_alt r RVoid = r"
| "simp_alt r s = RAlt r s"

fun simp_seq :: "re \<Rightarrow> re \<Rightarrow> re" where
  "simp_seq RVoid s = RVoid"
| "simp_seq r RVoid = RVoid"
| "simp_seq REmpty s = s"
| "simp_seq r s = RSeq r s"

fun deriv :: "char \<Rightarrow> re \<Rightarrow> re" where
  "deriv c RVoid = RVoid"
| "deriv c REmpty = RVoid"
| "deriv c (RSym p) = (if p c then REmpty else RVoid)"
| "deriv c (RAlt r s) = simp_alt (deriv c r) (deriv c s)"
| "deriv c (RSeq r s) =
     (if nullable r then simp_alt (simp_seq (deriv c r) s) (deriv c s)
      else simp_seq (deriv c r) s)"
| "deriv c (RStar r) = simp_seq (deriv c r) (RStar r)"

definition accepts :: "re \<Rightarrow> string \<Rightarrow> bool" where
  "accepts r s = nullable (foldl (\<lambda>r c. deriv c r) r s)"

text \<open>
  \<open>re.match(pattern, s)\<close> finds a match that starts at the first character of \<open>s\<close> (so a
  leading \<open>^\<close> adds nothing), and is truthy when there is one. Without the flag
  \<open>MULTILINE\<close>, a trailing \<open>$\<close> holds at the end of \<open>s\<close> and just before a newline that
  is the last character of \<open>s\<close>; without \<open>$\<close> the match may end anywhere.
\<close>

definition re_match :: "pattern \<Rightarrow> string \<Rightarrow> bool" where
  "re_match p s =
     (let r = expand (p_dotall p) (p_regex p)
      in if p_dollar p
         then accepts r s \<or> (s \<noteq> [] \<and> last s = CHR 0x0A \<and> accepts r (butlast s))
         else list_ex (\<lambda>n. accepts r (take n s)) [0..<Suc (length s)])"

fun sequence :: "regex list \<Rightarrow> regex" where
  "sequence [] = Lits []"
| "sequence [r] = r"
| "sequence (r # s # rs) = Cat r (sequence (s # rs))"

fun alternatives :: "regex list \<Rightarrow> regex" where
  "alternatives [] = Lits []"
| "alternatives [r] = r"
| "alternatives (r # s # rs) = Alt r (alternatives (s # rs))"

section \<open>Errors\<close>

text \<open>
  \<open>AnswerRequiredError\<close> is the exception class of \<open>commitizen.cz.exceptions\<close> that the
  source raises, with its message. \<open>AnswerValidationError\<close> is the second error kind the
  specification names; no function of the source raises it.
\<close>

datatype error = AnswerRequiredError string | AnswerValidationError string

text \<open>
  Modelled from the spec: \<open>required_validator\<close> is imported from the host's
  \<open>commitizen.cz.utils\<close> and is not part of the source; the specification says that the
  subject filter fails with a required-field error carrying the given message when the
  text is empty, and returns the text otherwise.
\<close>

definition required_validator :: "string \<Rightarrow> string \<Rightarrow> error + string" where
  "required_validator answer msg =
     (if answer = [] then Inl (AnswerRequiredError msg) else Inr answer)"

section \<open>Input filters\<close>

definition parse_scope :: "string \<Rightarrow> string" where
  "parse_scope text = str_join ''-'' (str_split (str_strip text))"

definition parse_subject :: "string \<Rightarrow> error + string" where
  "parse_subject text =
     required_validator (str_strip (str_strip_chars ''.'' text)) ''Subject is required.''"

text \<open>
  The pattern of one issue key, \<open>^[A-Z]{2,}-\d+$\<close>: its text as the source writes it, and
  its tree.
\<close>

definition issue_pattern_text :: string where
  "issue_pattern_text = ''^[A-Z]{2,}-'' @ [bslash] @ ''d+$''"

definition issue_key :: regex where
  "issue_key =
     sequence [AtLeast 2 (Cls False [Rng (CHR ''A'') (CHR ''Z'')]), Lits ''-'',
       OneOrMore (Atom (Esc (CHR ''d'')))]"

definition issue_pattern :: pattern where
  "issue_pattern = \<lparr>p_dotall = False, p_caret = True, p_regex = issue_key, p_dollar = True\<rparr>"

text \<open>
  The words \<open>^[A-Z]{2,}-\d+$\<close> describes: two or more letters \<open>A\<close> to \<open>Z\<close>, a hyphen, and
  one or more digits.
\<close>

definition is_issue_key :: "string \<Rightarrow> bool" where
  "is_issue_key s \<longleftrightarrow>
     (\<exists>ls ds. s = ls @ ''-'' @ ds \<and> 2 \<le> length ls \<and> (\<forall>c\<in>set ls. in_range 65 90 c)
        \<and> ds \<noteq> [] \<and> (\<forall>c\<in>set ds. isdigit c))"

definition parse_jira_issues :: "string \<Rightarrow> error + string" where
  "parse_jira_issues text =
     (let issues = str_join '' '' (str_split (str_strip text))
      in if \<not> list_all (\<lambda>issue. re_match issue_pattern issue) (str_split issues)
         then Inl (AnswerRequiredError ''Enter valid Jira issue keys (e.g., JRA-123).'')
         else Inr issues)"

definition jira_workflow_filter :: "string \<Rightarrow> string" where
  "jira_workflow_filter x =
     (if x \<noteq> [] then ''#'' @ str_replace_char (CHR '' '') ''-'' (str_strip x) else [])"

definition jira_time_filter :: "string \<Rightarrow> string" where
  "jira_time_filter x = (if x \<noteq> [] then ''#time '' @ x else [])"

definition jira_comment_filter :: "string \<Rightarrow> string" where
  "jira_comment_filter x = (if x \<noteq> [] then ''#comment '' @ x else [])"

section \<open>The message composer\<close>

record answers =
  jira_issues :: string
  jira_workflow :: string
  jira_time :: string
  jira_comment :: string
  prefix :: string
  scope :: string
  subject :: string
  body :: string
  footer :: string
  is_breaking_change :: bool

text \<open>
  \<open>message\<close> reads one setting of the host's configuration,
  \<open>breaking_change_exclamation_in_title\<close> (default \<open>False\<close>); its truth value is the
  parameter \<open>excl\<close>. The local variables of \<open>message\<close> are the definitions below, under
  their names in the source; \<open>effective_footer\<close> is the variable \<open>footer\<close> after its
  reassignment.
\<close>

definition formatted_scope :: "answers \<Rightarrow> string" where
  "formatted_scope a = (if scope a \<noteq> [] then ''('' @ scope a @ '')'' else [])"

definition title_head :: "bool \<Rightarrow> answers \<Rightarrow> string" where
  "title_head excl a =
     (let title = prefix a @ formatted_scope a
      in if is_breaking_change a \<and> excl then title @ ''!'' else title)"

definition title :: "bool \<Rightarrow> answers \<Rightarrow> string" where
  "title excl a =
     (if jira_issues a \<noteq> []
      then title_head excl a @ '': '' @ jira_issues a @ '' '' @ subject a
      else title_head excl a @ '': '' @ subject a)"

definition formatted_body :: "answers \<Rightarrow> string" where
  "formatted_body a = (if body a \<noteq> [] then [CHR 0x0A, CHR 0x0A] @ body a else [])"

definition jira_parts :: "answers \<Rightarrow> string list" where
  "jira_parts a = filter (\<lambda>x. x \<noteq> []) [jira_workflow a, jira_time a, jira_comment a]"

definition formatted_jira :: "answers \<Rightarrow> string" where
  "formatted_jira a =
     (if jira_parts a \<noteq> [] then [CHR 0x0A, CHR 0x0A] @ str_join '' '' (jira_parts a) else [])"

definition effective_footer :: "answers \<Rightarrow> string" where
  "effective_footer a =
     (if is_breaking_change a then ''BREAKING CHANGE: '' @ footer a else footer a)"

definition formatted_footer :: "answers \<Rightarrow> string" where
  "formatted_footer a =
     (if effective_footer a \<noteq> [] then [CHR 0x0A, CHR 0x0A] @ effective_footer a else [])"

definition message :: "bool \<Rightarrow> answers \<Rightarrow> string" where
  "message excl a = title excl a @ formatted_body a @ formatted_jira a @ formatted_footer a"

section \<open>The grammar of the message\<close>

definition example :: string where
  "example =
     ''fix: correct minor typos in code'' @ [newline]
     @ [newline]
     @ ''see the issue for details on the typos fixed'' @ [newline]
     @ [newline]
     @ ''closes issue #12''"

definition change_types :: "string list" where
  "change_types =
     [''build'', ''bump'', ''chore'', ''ci'', ''docs'', ''feat'', ''fix'', ''perf'',
      ''refactor'', ''revert'', ''style'', ''test'']"

definition jira_issues_pattern :: string where
  "jira_issues_pattern =
     ''([A-Z]{2,}-'' @ [bslash] @ ''d+( [A-Z]{2,}-'' @ [bslash] @ ''d+)*)?''"

definition jira_metadata_pattern :: string where
  "jira_metadata_pattern =
     ''(?:'' @ [bslash] @ ''s#'' @ [bslash] @ ''w+(?: [^'' @ [bslash] @ ''s#]+)?)?''"

definition schema_pattern :: string where
  "schema_pattern =
     ''(?s)''
     @ ''('' @ str_join ''|'' change_types @ '')''
     @ ''('' @ [bslash] @ ''('' @ [bslash] @ ''S+'' @ [bslash] @ ''))?''
     @ ''!?''
     @ '': ''
     @ jira_issues_pattern
     @ [bslash] @ ''s*([^'' @ [bslash] @ ''n'' @ [bslash] @ ''r]+)?''
     @ ''('' @ [bslash] @ ''n'' @ [bslash] @ ''n.*)?''
     @ ''(''
     @ jira_metadata_pattern
     @ '')*''
     @ ''$''"

text \<open>The trees of \<open>jira_issues_pattern\<close>, \<open>jira_metadata_pattern\<close> and \<open>schema_pattern\<close>.\<close>

definition jira_issues_regex :: regex where
  "jira_issues_regex =
     Opt (Grp (sequence [issue_key, Star (Grp (sequence [Lits '' '', issue_key]))]))"

definition jira_metadata_regex :: regex where
  "jira_metadata_regex =
     Opt (NGrp (sequence
       [Atom (Esc (CHR ''s'')), Lits ''#'', OneOrMore (Atom (Esc (CHR ''w''))),
        Opt (NGrp (sequence
          [Lits '' '', OneOrMore (Cls True [Esc (CHR ''s''), Lit (CHR ''#'')])]))]))"

definition schema_regex :: pattern where
  "schema_regex =
     \<lparr>p_dotall = True, p_caret = False,
      p_regex = sequence
        [Grp (alternatives (map Lits change_types)),
         Opt (Grp (sequence
           [Atom (Esc (CHR ''('')), OneOrMore (Atom (Esc (CHR ''S''))),
            Atom (Esc (CHR '')''))])),
         Opt (Lits ''!''),
         Lits '': '',
         jira_issues_regex,
         Star (Atom (Esc (CHR ''s''))),
         Opt (Grp (OneOrMore (Cls True [Esc (CHR ''n''), Esc (CHR ''r'')]))),
         Opt (Grp (sequence [Atom (Esc (CHR ''n'')), Atom (Esc (CHR ''n'')), Star Dot])),
         Star (Grp jira_metadata_regex)],
      p_dollar = True\<rparr>"

section \<open>The filters as the specification words them\<close>

text \<open>
  The specification's subject filter: trim trailing periods, then trim whitespace, and
  fail with a required-field error when the result is empty.
\<close>

definition spec_parse_subject :: "string \<Rightarrow> error + string" where
  "spec_parse_subject text =
     (let r = str_strip (rev (dropWhile (\<lambda>c. c = CHR ''.'') (rev text)))
      in if r = [] then Inl (AnswerRequiredError ''Subject is required.'') else Inr r)"

text \<open>
  The specification's jira-time filter: prefix the trimmed input with \<open>#time \<close>; the empty
  input gives the empty output.
\<close>

definition spec_jira_time_filter :: "string \<Rightarrow> string" where
  "spec_jira_time_filter x = (if x \<noteq> [] then ''#time '' @ str_strip x else [])"

section \<open>Splitting and joining\<close>

lemma split_from_all_space:
  "\<forall>c\<in>set s. isspace c \<Longrightarrow> split_from cur s = (if cur = [] then [] else [cur])"
  by (induction s arbitrary: cur) auto

lemma split_from_dropWhile: "split_from [] (dropWhile isspace s) = split_from [] s"
  by (induction s) auto

lemma split_from_append_space:
  "\<forall>c\<in>set ws. isspace c \<Longrightarrow> split_from cur (s @ ws) = split_from cur s"
  by (induction s arbitrary: cur) (auto simp: split_from_all_space)

lemma rev_dropWhile_decomp:
  "s = rev (dropWhile p (rev s)) @ rev (takeWhile p (rev s))"
  by (metis rev_append rev_rev_ident takeWhile_dropWhile_id)

lemma str_split_strip: "str_split (str_strip s) = str_split s"
proof -
  let ?t = "dropWhile isspace s"
  have "\<forall>c\<in>set (rev (takeWhile isspace (rev ?t))). isspace c"
    by (auto dest: set_takeWhileD)
  then have "split_from [] (rev (dropWhile isspace (rev ?t)) @ rev (takeWhile isspace (rev ?t)))
      = split_from [] (rev (dropWhile isspace (rev ?t)))"
    by (rule split_from_append_space)
  then have "split_from [] ?t = split_from [] (rev (dropWhile isspace (rev ?t)))"
    using rev_dropWhile_decomp [of ?t isspace] by simp
  then show ?thesis
    by (simp add: str_split_def str_strip_def strip_with_def split_from_dropWhile)
qed

lemma split_from_tokens:
  "\<forall>c\<in>set cur. \<not> isspace c \<Longrightarrow>
     \<forall>t\<in>set (split_from cur s). t \<noteq> [] \<and> (\<forall>c\<in>set t. \<not> isspace c)"
proof (induction s arbitrary: cur)
  case Nil
  then show ?case by simp
next
  case (Cons a s)
  have nil: "\<forall>t\<in>set (split_from [] s). t \<noteq> [] \<and> (\<forall>c\<in>set t. \<not> isspace c)"
    using Cons.IH [of "[]"] by simp
  show ?case
  proof (cases "isspace a")
    case True
    then show ?thesis using nil Cons.prems by simp
  next
    case False
    then have "\<forall>c\<in>set (cur @ [a]). \<not> isspace c" using Cons.prems by simp
    then show ?thesis using Cons.IH [of "cur @ [a]"] False by simp
  qed
qed

lemma str_split_tokens:
  "t \<in> set (str_split s) \<Longrightarrow> t \<noteq> [] \<and> (\<forall>c\<in>set t. \<not> isspace c)"
  using split_from_tokens [of "[]" s] by (simp add: str_split_def)

lemma split_from_word:
  "\<forall>c\<in>set t. \<not> isspace c \<Longrightarrow> split_from cur (t @ rest) = split_from (cur @ t) rest"
  by (induction t arbitrary: cur) auto

lemma isspace_space: "isspace (CHR '' '')"
  by (simp add: isspace_def whitespace_chars_def)

lemma split_join_tokens:
  "\<forall>t\<in>set ts. t \<noteq> [] \<and> (\<forall>c\<in>set t. \<not> isspace c) \<Longrightarrow>
     split_from [] (str_join '' '' ts) = ts"
proof (induction "'' ''" ts rule: str_join.induct)
  case 1
  then show ?case by simp
next
  case (2 x)
  then show ?case using split_from_word [of x "[]" "[]"] by simp
next
  case (3 x y ys)
  then have "split_from [] (x @ '' '' @ str_join '' '' (y # ys))
      = split_from x ('' '' @ str_join '' '' (y # ys))"
    using split_from_word [of x "[]"] by simp
  also have "\<dots> = x # split_from [] (str_join '' '' (y # ys))"
    using 3 by (simp add: isspace_space)
  finally show ?case using 3 by simp
qed

lemma str_split_join: "str_split (str_join '' '' (str_split s)) = str_split s"
  using split_join_tokens [of "str_split s"] str_split_tokens [of _ s]
  by (simp add: str_split_def)

lemma parse_jira_issues_eq:
  "parse_jira_issues text =
     (if list_all (re_match issue_pattern) (str_split text)
      then Inr (str_join '' '' (str_split text))
      else Inl (AnswerRequiredError ''Enter valid Jira issue keys (e.g., JRA-123).''))"
  by (simp add: parse_jira_issues_def Let_def str_split_strip str_split_join)

section \<open>Stripping\<close>

lemma strip_with_decomp:
  "\<exists>pre post. s = pre @ strip_with p s @ post \<and> (\<forall>c\<in>set (pre @ post). p c)"
proof -
  let ?t = "dropWhile p s"
  have "s = takeWhile p s @ ?t" by simp
  moreover have "?t = strip_with p s @ rev (takeWhile p (rev ?t))"
    using rev_dropWhile_decomp [of ?t p] by (simp add: strip_with_def)
  ultimately have "s = takeWhile p s @ strip_with p s @ rev (takeWhile p (rev ?t))"
    by metis
  moreover have "\<forall>c\<in>set (takeWhile p s @ rev (takeWhile p (rev ?t))). p c"
    by (auto dest: set_takeWhileD)
  ultimately show ?thesis by blast
qed

lemma strip_with_ends:
  assumes "strip_with p s \<noteq> []"
  shows "\<not> p (hd (strip_with p s)) \<and> \<not> p (last (strip_with p s))"
proof -
  let ?t = "dropWhile p s"
  let ?u = "dropWhile p (rev ?t)"
  have u: "?u \<noteq> []" using assms by (simp add: strip_with_def)
  have "last (strip_with p s) = hd ?u"
    using u by (simp add: strip_with_def last_rev)
  moreover have "\<not> p (hd ?u)" using u hd_dropWhile by blast
  moreover have "?t = strip_with p s @ rev (takeWhile p (rev ?t))"
    using rev_dropWhile_decomp [of ?t p] by (simp add: strip_with_def)
  then have "hd ?t = hd (strip_with p s)" using assms by (metis hd_append2)
  moreover have "?t \<noteq> []"
  proof
    assume a: "?t = []"
    have "?u = []" unfolding a by simp
    with u show False by simp
  qed
  then have "\<not> p (hd ?t)" using hd_dropWhile by blast
  ultimately show ?thesis by simp
qed

lemma strip_values:
  "str_strip (str_strip_chars ''.'' ''fix a bug.'') = ''fix a bug''"
  "str_strip (str_strip_chars ''.'' ''   '') = []"
  "str_strip (str_strip_chars ''.'' ''.'') = []"
  "str_strip (str_strip_chars ''.'' ''.gitignore update.'') = ''gitignore update''"
  by (simp_all add: str_strip_chars_def str_strip_def strip_with_def isspace_def
        whitespace_chars_def)

section \<open>The matcher and the words of an expression\<close>

lemma lang_simp_alt: "lang (simp_alt r s) = lang r \<union> lang s"
  by (induction r s rule: simp_alt.induct) simp_all

lemma lang_simp_seq: "lang (simp_seq r s) = {u @ v | u v. u \<in> lang r \<and> v \<in> lang s}"
  by (induction r s rule: simp_seq.induct) auto

lemma nullable_iff: "nullable r \<longleftrightarrow> [] \<in> lang r"
  by (induction r) (auto intro: star_words.star_nil)

lemma star_words_cons:
  "c # w \<in> star_words L \<longleftrightarrow> (\<exists>u v. w = u @ v \<and> c # u \<in> L \<and> v \<in> star_words L)"
proof
  assume "c # w \<in> star_words L"
  then show "\<exists>u v. w = u @ v \<and> c # u \<in> L \<and> v \<in> star_words L"
  proof (induction "c # w" arbitrary: w rule: star_words.induct)
    case (star_step u v)
    show ?case
    proof (cases u)
      case Nil
      then show ?thesis using star_step by simp
    next
      case (Cons a u')
      then show ?thesis using star_step by auto
    qed
  qed
next
  assume "\<exists>u v. w = u @ v \<and> c # u \<in> L \<and> v \<in> star_words L"
  then obtain u v where "w = u @ v" "c # u \<in> L" "v \<in> star_words L" by blast
  then show "c # w \<in> star_words L"
    using star_words.star_step [of "c # u" L v] by simp
qed

lemma lang_deriv: "lang (deriv c r) = {w. c # w \<in> lang r}"
proof (induction r)
  case (RSeq r s)
  show ?case
  proof (cases "nullable r")
    case True
    then show ?thesis
      using RSeq by (auto simp: lang_simp_alt lang_simp_seq nullable_iff Cons_eq_append_conv)
  next
    case False
    then show ?thesis
      using RSeq by (auto simp: lang_simp_seq nullable_iff Cons_eq_append_conv)
  qed
next
  case (RStar r)
  then show ?case by (auto simp: lang_simp_seq star_words_cons)
qed (auto simp: lang_simp_alt)

lemma accepts_iff: "accepts r s \<longleftrightarrow> s \<in> lang r"
proof -
  have "nullable (foldl (\<lambda>r c. deriv c r) r s) \<longleftrightarrow> s \<in> lang r"
    by (induction s arbitrary: r) (simp_all add: nullable_iff lang_deriv)
  then show ?thesis by (simp add: accepts_def)
qed


lemma star_words_sym: "star_words {[c] | c. P c} = {w. \<forall>c\<in>set w. P c}"
proof (intro equalityI subsetI)
  fix w assume "w \<in> star_words {[c] | c. P c}"
  then show "w \<in> {w. \<forall>c\<in>set w. P c}"
    by (induction rule: star_words.induct) auto
next
  fix w assume "w \<in> {w. \<forall>c\<in>set w. P c}"
  then have "\<forall>c\<in>set w. P c" by simp
  then show "w \<in> star_words {[c] | c. P c}"
  proof (induction w)
    case Nil
    show ?case by (rule star_words.star_nil)
  next
    case (Cons a w)
    then have "[a] \<in> {[c] | c. P c}" "w \<in> star_words {[c] | c. P c}" by auto
    then have "[a] @ w \<in> star_words {[c] | c. P c}" by (rule star_words.star_step)
    then show ?case by simp
  qed
qed

lemma lang_upper:
  "lang (expand d (Cls False [Rng (CHR ''A'') (CHR ''Z'')])) = {[c] | c. in_range 65 90 c}"
  by simp

lemma lang_digit: "lang (expand d (Atom (Esc (CHR ''d'')))) = {[c] | c. isdigit c}"
  by (simp add: esc_matches_def)

lemma lang_hyphen: "lang (expand d (Lits ''-'')) = {''-''}"
  by simp

lemma lang_Cat:
  "lang (expand d (Cat r s)) = {u @ v | u v. u \<in> lang (expand d r) \<and> v \<in> lang (expand d s)}"
  by simp

lemma lang_OneOrMore:
  "lang (expand d (OneOrMore r)) =
     {u @ v | u v. u \<in> lang (expand d r) \<and> v \<in> star_words (lang (expand d r))}"
  by simp

lemma lang_AtLeast2:
  "lang (expand d (AtLeast 2 r)) =
     {u @ v @ w | u v w. u \<in> lang (expand d r) \<and> v \<in> lang (expand d r)
        \<and> w \<in> star_words (lang (expand d r))}"
  by (auto simp: numeral_2_eq_2)

lemmas lang_issue_key_parts =
  issue_key_def sequence.simps lang_Cat lang_AtLeast2 lang_OneOrMore lang_upper lang_digit
  lang_hyphen star_words_sym

lemma lang_issue_key: "s \<in> lang (expand False issue_key) \<longleftrightarrow> is_issue_key s"
proof
  assume "s \<in> lang (expand False issue_key)"
  then obtain a b t ds d where
    "s = ([a] @ [b] @ t) @ ''-'' @ [d] @ ds" "in_range 65 90 a" "in_range 65 90 b"
    "\<forall>c\<in>set t. in_range 65 90 c" "isdigit d" "\<forall>c\<in>set ds. isdigit c"
    unfolding lang_issue_key_parts by auto
  then show "is_issue_key s"
    unfolding is_issue_key_def
    by (intro exI [of _ "[a] @ [b] @ t"] exI [of _ "[d] @ ds"]) auto
next
  assume "is_issue_key s"
  then obtain ls ds where k: "s = ls @ ''-'' @ ds" "2 \<le> length ls"
    "\<forall>c\<in>set ls. in_range 65 90 c" "ds \<noteq> []" "\<forall>c\<in>set ds. isdigit c"
    unfolding is_issue_key_def by blast
  obtain a b t where ls: "ls = [a] @ [b] @ t"
    using k(2) by (cases ls; cases "tl ls") auto
  obtain d ds' where ds: "ds = [d] @ ds'" using k(4) by (cases ds) auto
  have "[a] \<in> {[c] | c. in_range 65 90 c}" "[b] \<in> {[c] | c. in_range 65 90 c}"
    "t \<in> {w. \<forall>c\<in>set w. in_range 65 90 c}" "[d] \<in> {[c] | c. isdigit c}"
    "ds' \<in> {w. \<forall>c\<in>set w. isdigit c}"
    using k ls ds by auto
  then show "s \<in> lang (expand False issue_key)"
    unfolding lang_issue_key_parts k(1) ls ds by blast
qed

lemma re_match_issue_pattern:
  "re_match issue_pattern s \<longleftrightarrow>
     is_issue_key s \<or> (s \<noteq> [] \<and> last s = CHR 0x0A \<and> is_issue_key (butlast s))"
  by (simp add: re_match_def issue_pattern_def accepts_iff lang_issue_key)

section \<open>The end of a message\<close>











section \<open>The title\<close>

text \<open>
  Claim C1. When \<open>jira_issues\<close> is empty, the message begins with the prefix, the scope in
  parentheses when there is one, \<open>!\<close> when the change is breaking and the setting is on,
  \<open>: \<close> and the subject; what follows is the body, metadata and footer sections, and
  when all three are absent the message is exactly that title.
\<close>

theorem title_without_issues:
  assumes "jira_issues a = []"
  shows "message excl a =
           (prefix a @ (if scope a \<noteq> [] then ''('' @ scope a @ '')'' else [])
              @ (if is_breaking_change a \<and> excl then ''!'' else []) @ '': '' @ subject a)
           @ (formatted_body a @ formatted_jira a @ formatted_footer a)
         \<and> (formatted_body a = [] \<and> formatted_jira a = [] \<and> formatted_footer a = [] \<longrightarrow>
              message excl a =
                prefix a @ (if scope a \<noteq> [] then ''('' @ scope a @ '')'' else [])
                  @ (if is_breaking_change a \<and> excl then ''!'' else []) @ '': '' @ subject a)"
  using assms by (simp add: message_def title_def title_head_def formatted_scope_def Let_def)

theorem title_without_issues_witness:
  "message False
     \<lparr>jira_issues = [], jira_workflow = [], jira_time = [], jira_comment = [],
      prefix = ''fix'', scope = ''parser'', subject = ''handle empty input'', body = [],
      footer = [], is_breaking_change = False\<rparr>
   = ''fix(parser): handle empty input''"
  using title_without_issues [of
     "\<lparr>jira_issues = [], jira_workflow = [], jira_time = [], jira_comment = [],
      prefix = ''fix'', scope = ''parser'', subject = ''handle empty input'', body = [],
      footer = [], is_breaking_change = False\<rparr>" False]
  by (simp add: formatted_body_def formatted_jira_def jira_parts_def formatted_footer_def
        effective_footer_def)

text \<open>
  Claim C2. When \<open>jira_issues\<close> is not empty, the title is the title head, \<open>: \<close>, the
  issue keys as they are, one space and the subject; the message begins with that title.
\<close>

theorem title_with_issues:
  assumes "jira_issues a \<noteq> []"
  shows "title excl a = title_head excl a @ '': '' @ jira_issues a @ '' '' @ subject a
         \<and> title_head excl a =
             prefix a @ (if scope a \<noteq> [] then ''('' @ scope a @ '')'' else [])
               @ (if is_breaking_change a \<and> excl then ''!'' else [])
         \<and> message excl a =
             (title_head excl a @ '': '' @ jira_issues a @ '' '' @ subject a)
               @ (formatted_body a @ formatted_jira a @ formatted_footer a)"
  using assms by (simp add: message_def title_def title_head_def formatted_scope_def Let_def)

theorem title_with_issues_witness:
  "message False
     \<lparr>jira_issues = ''JRA-42'', jira_workflow = [], jira_time = [], jira_comment = [],
      prefix = ''fix'', scope = ''parser'', subject = ''handle empty input'', body = [],
      footer = [], is_breaking_change = False\<rparr>
   = ''fix(parser): JRA-42 handle empty input''"
  using title_with_issues [of
     "\<lparr>jira_issues = ''JRA-42'', jira_workflow = [], jira_time = [], jira_comment = [],
      prefix = ''fix'', scope = ''parser'', subject = ''handle empty input'', body = [],
      footer = [], is_breaking_change = False\<rparr>" False]
  by (simp add: formatted_body_def formatted_jira_def jira_parts_def formatted_footer_def
        effective_footer_def)

section \<open>The sections after the title\<close>

text \<open>
  Claim C3. When \<open>is_breaking_change\<close> is true, the footer section is a blank line,
  \<open>BREAKING CHANGE: \<close> and the footer, and it is never empty; it is the end of the
  message, so with an empty footer the message ends with a blank line and
  \<open>BREAKING CHANGE: \<close>, whatever the other fields are.
\<close>

theorem breaking_change_footer:
  assumes "is_breaking_change a"
  shows "formatted_footer a = [CHR 0x0A, CHR 0x0A] @ ''BREAKING CHANGE: '' @ footer a
         \<and> formatted_footer a \<noteq> []
         \<and> message excl a =
             (title excl a @ formatted_body a @ formatted_jira a) @ formatted_footer a
         \<and> (footer a = [] \<longrightarrow>
              message excl a =
                (title excl a @ formatted_body a @ formatted_jira a)
                  @ [CHR 0x0A, CHR 0x0A] @ ''BREAKING CHANGE: '')"
  using assms by (simp add: message_def formatted_footer_def effective_footer_def)

theorem breaking_change_footer_witness:
  "message True
     \<lparr>jira_issues = [], jira_workflow = [], jira_time = [], jira_comment = [],
      prefix = ''feat'', scope = [], subject = ''drop v1'', body = [],
      footer = [], is_breaking_change = True\<rparr>
   = ''feat!: drop v1'' @ [CHR 0x0A, CHR 0x0A] @ ''BREAKING CHANGE: ''"
  using breaking_change_footer [of
     "\<lparr>jira_issues = [], jira_workflow = [], jira_time = [], jira_comment = [],
      prefix = ''feat'', scope = [], subject = ''drop v1'', body = [],
      footer = [], is_breaking_change = True\<rparr>" True]
  by (simp add: title_def title_head_def formatted_scope_def formatted_body_def
        formatted_jira_def jira_parts_def)

text \<open>
  Claim C7. The metadata section collects the non-empty members of \<open>jira_workflow\<close>,
  \<open>jira_time\<close> and \<open>jira_comment\<close> in that order and joins them with single spaces; it is
  a blank line and the joined text when there is such a member, and empty otherwise. It
  stands between the body section and the footer section.
\<close>

theorem metadata_section:
  "formatted_jira a =
     (let parts = filter (\<lambda>x. x \<noteq> []) [jira_workflow a, jira_time a, jira_comment a]
      in if parts \<noteq> [] then [CHR 0x0A, CHR 0x0A] @ str_join '' '' parts else [])
   \<and> formatted_jira a =
     (if jira_workflow a = [] \<and> jira_time a = [] \<and> jira_comment a = [] then []
      else [CHR 0x0A, CHR 0x0A] @ jira_workflow a
        @ (if jira_workflow a \<noteq> [] \<and> (jira_time a \<noteq> [] \<or> jira_comment a \<noteq> [])
           then '' '' else [])
        @ jira_time a
        @ (if jira_time a \<noteq> [] \<and> jira_comment a \<noteq> [] then '' '' else [])
        @ jira_comment a)
   \<and> message excl a = title excl a @ formatted_body a @ formatted_jira a @ formatted_footer a"
  by (simp add: formatted_jira_def jira_parts_def message_def)

theorem metadata_section_witness:
  "formatted_jira
     \<lparr>jira_issues = [], jira_workflow = ''#testing'', jira_time = [],
      jira_comment = ''#comment done'', prefix = ''fix'', scope = [], subject = ''s'',
      body = [], footer = [], is_breaking_change = False\<rparr>
   = [CHR 0x0A, CHR 0x0A] @ ''#testing #comment done''"
  using metadata_section [of
     "\<lparr>jira_issues = [], jira_workflow = ''#testing'', jira_time = [],
      jira_comment = ''#comment done'', prefix = ''fix'', scope = [], subject = ''s'',
      body = [], footer = [], is_breaking_change = False\<rparr>" False]
  by simp

section \<open>The filters\<close>

text \<open>
  Claim C6, as stated: the jira-time filter prefixes the trimmed input with \<open>#time \<close>.
  It fails on an input with a leading space: the source prefixes the input as it is.
\<close>

theorem jira_time_filter_trims_counterexample:
  "jira_time_filter '' 3h'' = ''#time  3h''
   \<and> spec_jira_time_filter '' 3h'' = ''#time 3h''
   \<and> jira_time_filter '' 3h'' \<noteq> spec_jira_time_filter '' 3h''"
  by (simp add: jira_time_filter_def spec_jira_time_filter_def str_strip_def strip_with_def
        isspace_def whitespace_chars_def)

text \<open>
  Claim C6, amended: the jira-time filter returns \<open>#time \<close> followed by the input as it
  is, untrimmed, when the input is not empty, and the empty string when it is empty.
\<close>

theorem jira_time_filter_prefixes:
  "jira_time_filter [] = []
   \<and> (x \<noteq> [] \<longrightarrow> jira_time_filter x = ''#time '' @ x \<and> drop 6 (jira_time_filter x) = x)"
  by (simp add: jira_time_filter_def)

theorem jira_time_filter_prefixes_witness:
  "jira_time_filter [] = [] \<and> jira_time_filter '' 3h '' = ''#time  3h ''"
  using jira_time_filter_prefixes [of "'' 3h ''"] by simp

text \<open>
  Claim C10. On an input of whitespace characters only, the empty input included, the
  jira-issues filter returns the empty string and raises no error.
\<close>

theorem jira_issues_filter_blank:
  assumes "\<forall>c\<in>set text. isspace c"
  shows "parse_jira_issues text = Inr []"
proof -
  have "str_split text = []"
    using assms by (simp add: str_split_def split_from_all_space)
  then show ?thesis
    by (simp add: parse_jira_issues_eq)
qed

theorem jira_issues_filter_blank_witness:
  "parse_jira_issues [CHR '' '', CHR 0x09, CHR 0x0A] = Inr []
   \<and> parse_jira_issues [] = Inr []"
  using jira_issues_filter_blank [of "[CHR '' '', CHR 0x09, CHR 0x0A]"]
    jira_issues_filter_blank [of "[]"]
  by (simp add: isspace_def whitespace_chars_def)

text \<open>
  Claim C4, as stated: the subject filter trims trailing periods, then whitespace, and
  returns the result. It fails on a subject that begins with a period: the source strips
  the periods at both ends.
\<close>

theorem subject_filter_trailing_counterexample:
  "parse_subject ''.gitignore update.'' = Inr ''gitignore update''
   \<and> spec_parse_subject ''.gitignore update.'' = Inr ''.gitignore update''
   \<and> parse_subject ''.gitignore update.'' \<noteq> spec_parse_subject ''.gitignore update.''"
  by (simp add: parse_subject_def required_validator_def spec_parse_subject_def
        str_strip_chars_def str_strip_def strip_with_def isspace_def whitespace_chars_def)

text \<open>
  Claim C4, amended: the subject filter strips the periods at both ends of the input, then
  the whitespace at both ends of what is left, and returns the result; it raises the
  required-field error with the message \<open>Subject is required.\<close> exactly when that result
  is empty.
\<close>

theorem subject_filter:
  "(let m = str_strip_chars ''.'' text; r = str_strip m
    in parse_subject text =
         (if r = [] then Inl (AnswerRequiredError ''Subject is required.'') else Inr r)
       \<and> (\<exists>d1 d2. text = d1 @ m @ d2 \<and> (\<forall>c\<in>set (d1 @ d2). c = CHR ''.''))
       \<and> (\<exists>w1 w2. m = w1 @ r @ w2 \<and> (\<forall>c\<in>set (w1 @ w2). isspace c))
       \<and> (m \<noteq> [] \<longrightarrow> hd m \<noteq> CHR ''.'' \<and> last m \<noteq> CHR ''.'')
       \<and> (r \<noteq> [] \<longrightarrow> \<not> isspace (hd r) \<and> \<not> isspace (last r)))"
proof -
  let ?m = "str_strip_chars ''.'' text"
  let ?r = "str_strip ?m"
  have p: "parse_subject text =
         (if ?r = [] then Inl (AnswerRequiredError ''Subject is required.'') else Inr ?r)"
    by (simp add: parse_subject_def required_validator_def)
  have d: "\<exists>d1 d2. text = d1 @ ?m @ d2 \<and> (\<forall>c\<in>set (d1 @ d2). c = CHR ''.'')"
    using strip_with_decomp [of "text" "\<lambda>c. c \<in> set ''.''"]
    unfolding str_strip_chars_def by simp
  have w: "\<exists>w1 w2. ?m = w1 @ ?r @ w2 \<and> (\<forall>c\<in>set (w1 @ w2). isspace c)"
    using strip_with_decomp [of ?m isspace] unfolding str_strip_def [of ?m] .
  have dm: "?m \<noteq> [] \<longrightarrow> hd ?m \<noteq> CHR ''.'' \<and> last ?m \<noteq> CHR ''.''"
    using strip_with_ends [of "\<lambda>c. c \<in> set ''.''" "text"]
    unfolding str_strip_chars_def by simp
  have wr: "?r \<noteq> [] \<longrightarrow> \<not> isspace (hd ?r) \<and> \<not> isspace (last ?r)"
    using strip_with_ends [of isspace ?m] unfolding str_strip_def [of ?m] by blast
  show ?thesis
    unfolding Let_def by (intro conjI p d w dm wr)
qed

theorem subject_filter_witness:
  "parse_subject ''fix a bug.'' = Inr ''fix a bug''
   \<and> parse_subject ''   '' = Inl (AnswerRequiredError ''Subject is required.'')
   \<and> parse_subject ''.'' = Inl (AnswerRequiredError ''Subject is required.'')"
proof -
  have "parse_subject ''fix a bug.'' = Inr ''fix a bug''"
    using subject_filter [of "''fix a bug.''"] unfolding Let_def strip_values by simp
  moreover have "parse_subject ''   '' = Inl (AnswerRequiredError ''Subject is required.'')"
    using subject_filter [of "''   ''"] unfolding Let_def strip_values by simp
  moreover have "parse_subject ''.'' = Inl (AnswerRequiredError ''Subject is required.'')"
    using subject_filter [of "''.''"] unfolding Let_def strip_values by simp
  ultimately show ?thesis by simp
qed

text \<open>
  Claim C5, as stated: on a token that is not an issue key the jira-issues filter raises
  an \<open>AnswerValidationError\<close>. The source raises \<open>AnswerRequiredError\<close>, the class of the
  subject filter's error.
\<close>

theorem jira_issues_filter_error_counterexample:
  "parse_jira_issues ''jra-123''
     = Inl (AnswerRequiredError ''Enter valid Jira issue keys (e.g., JRA-123).'')
   \<and> parse_jira_issues ''jra-123''
     \<noteq> Inl (AnswerValidationError ''Enter valid Jira issue keys (e.g., JRA-123).'')"
  by code_simp

text \<open>
  Claim C5, amended: the jira-issues filter returns the tokens of the input joined by
  single spaces, and raises \<open>AnswerRequiredError\<close> with the message
  \<open>Enter valid Jira issue keys (e.g., JRA-123).\<close> exactly when some token does not match
  \<open>^[A-Z]{2,}-\d+$\<close>, that is, is not two or more capital letters, a hyphen and one or more
  digits. The returned string has the tokens of the input.
\<close>

theorem jira_issues_filter:
  "parse_jira_issues text =
     (if \<forall>tok\<in>set (str_split text). re_match issue_pattern tok
      then Inr (str_join '' '' (str_split text))
      else Inl (AnswerRequiredError ''Enter valid Jira issue keys (e.g., JRA-123).''))
   \<and> (\<forall>tok\<in>set (str_split text). re_match issue_pattern tok \<longleftrightarrow> is_issue_key tok)
   \<and> str_split (str_join '' '' (str_split text)) = str_split text
   \<and> render_pattern issue_pattern = issue_pattern_text"
proof -
  have "re_match issue_pattern tok \<longleftrightarrow> is_issue_key tok" if "tok \<in> set (str_split text)" for tok
  proof -
    have "tok \<noteq> [] \<and> (\<forall>c\<in>set tok. \<not> isspace c)"
      using that by (rule str_split_tokens)
    then have "tok \<noteq> [] \<longrightarrow> last tok \<noteq> CHR 0x0A"
      using last_in_set [of tok] by (auto simp: isspace_def whitespace_chars_def)
    then show ?thesis by (auto simp: re_match_issue_pattern)
  qed
  moreover have "render_pattern issue_pattern = issue_pattern_text"
    by code_simp
  ultimately show ?thesis
    by (simp add: parse_jira_issues_eq list_all_iff str_split_join)
qed

theorem jira_issues_filter_witness:
  "parse_jira_issues ''JRA-123  ABC-45'' = Inr ''JRA-123 ABC-45''
   \<and> parse_jira_issues ''JRA-123 abc-45''
     = Inl (AnswerRequiredError ''Enter valid Jira issue keys (e.g., JRA-123).'')"
proof -
  have s1: "str_split ''JRA-123  ABC-45'' = [''JRA-123'', ''ABC-45'']"
    and s2: "str_split ''JRA-123 abc-45'' = [''JRA-123'', ''abc-45'']"
    by code_simp+
  have m: "re_match issue_pattern ''JRA-123''" "re_match issue_pattern ''ABC-45''"
    "\<not> re_match issue_pattern ''abc-45''"
    by code_simp+
  show ?thesis
    using jira_issues_filter [of "''JRA-123  ABC-45''"] jira_issues_filter [of "''JRA-123 abc-45''"]
    unfolding s1 s2 by (simp add: m)
qed

section \<open>The pattern and the example\<close>

lemma schema_regex_renders: "render_pattern schema_regex = schema_pattern"
  by code_simp

lemma schema_regex_well_formed: "well_formed (p_regex schema_regex)"
  by code_simp

lemma schema_regex_matches_example: "re_match schema_regex example"
  by code_simp

lemma schema_regex_accepts_example:
  "accepts (expand (p_dotall schema_regex) (p_regex schema_regex)) example"
  by code_simp

text \<open>
  Claim C8. The pattern of \<open>schema_pattern\<close>, read with the flag \<open>(?s)\<close> it carries and the
  \<open>$\<close> that ends it, matches the whole message of \<open>example\<close>: \<open>schema_regex\<close> is the tree
  whose text is \<open>schema_pattern\<close>, \<open>re_match\<close> matches it against the example, and the
  example, to its last character, is a word of the expression before the \<open>$\<close>.
\<close>

theorem schema_pattern_matches_example:
  "render_pattern schema_regex = schema_pattern
   \<and> well_formed (p_regex schema_regex)
   \<and> re_match schema_regex example
   \<and> example \<in> lang (expand (p_dotall schema_regex) (p_regex schema_regex))"
  using schema_regex_accepts_example
  by (simp add: schema_regex_renders schema_regex_well_formed schema_regex_matches_example
        accepts_iff)

section \<open>The end of the message\<close>




end
